theory Spec2Isabelle
  imports Main "HOL-Library.Sublist"
begin

section \<open>The values that reach the assistant\<close>

text \<open>
  The module \<^verbatim>\<open>phi/assistant/assistant.py\<close> coordinates a language model, a storage
  adapter, a memory object and a list of tasks. Its fields of type \<^verbatim>\<open>Any\<close>,
  \<^verbatim>\<open>Dict\<close>, \<^verbatim>\<open>List\<close> and \<^verbatim>\<open>BaseModel\<close> hold Python values; \<open>pyval\<close> is the
  universe of the values the code inspects: it asks whether a value is \<^verbatim>\<open>None\<close>, whether it
  is a \<^verbatim>\<open>str\<close>, a \<^verbatim>\<open>dict\<close>, a \<^verbatim>\<open>list\<close> or a \<^verbatim>\<open>BaseModel\<close> instance, and
  whether it is true in a condition. Floating-point numbers are not represented. A string
  is a list of code points below 256.
\<close>

datatype pyval =
    PNone
  | PBool bool
  | PInt int
  | PStr string
  | PList "pyval list"
  | PDict "(string \<times> pyval) list"
  | PModel string "(string \<times> pyval) list"

text \<open>Python's truth value of an object: what \<^verbatim>\<open>if x:\<close> and \<^verbatim>\<open>x or y\<close> test.\<close>

fun truthy :: "pyval \<Rightarrow> bool" where
  "truthy PNone = False"
| "truthy (PBool b) = b"
| "truthy (PInt i) = (i \<noteq> 0)"
| "truthy (PStr s) = (s \<noteq> [])"
| "truthy (PList xs) = (xs \<noteq> [])"
| "truthy (PDict kvs) = (kvs \<noteq> [])"
| "truthy (PModel c fs) = True"

text \<open>\<^verbatim>\<open>Dict[str, Any]\<close> fields: a finite map from keys to values.\<close>

type_synonym pydict = "string \<rightharpoonup> pyval"

text \<open>
  Exceptions that leave an operation: \<^verbatim>\<open>raise Exception(msg)\<close>, a failed
  \<^verbatim>\<open>model_dump_json\<close> outside \<^verbatim>\<open>try\<close>, \<^verbatim>\<open>messages[-1]\<close> on an empty list,
  \<^verbatim>\<open>next\<close> on a generator that yields nothing, a method call on \<^verbatim>\<open>None\<close>.
\<close>

datatype error = Error string | SerializationError | IndexError | StopIteration | AttributeError

section \<open>Messages and memory\<close>

text \<open>\<^verbatim>\<open>phi.llm.message.Message\<close>: the module reads and writes its role and content.\<close>

record message =
  role :: string
  content :: string

text \<open>
  Modelled from the spec: \<^verbatim>\<open>phi.memory.assistant.AssistantMemory\<close> is not part of the
  source file. The spec describes it as an ordered sequence of chat messages (the visible
  conversation) plus a separate ordered sequence of raw messages sent to and received from
  the model, both append-only.
\<close>

record memory =
  chat_history :: "message list"
  llm_messages :: "message list"

definition add_chat_message :: "message \<Rightarrow> memory \<Rightarrow> memory" where
  "add_chat_message m mem = mem\<lparr>chat_history := chat_history mem @ [m]\<rparr>"

definition add_llm_messages :: "message list \<Rightarrow> memory \<Rightarrow> memory" where
  "add_llm_messages ms mem = mem\<lparr>llm_messages := llm_messages mem @ ms\<rparr>"

section \<open>The persisted record\<close>

text \<open>
  \<^verbatim>\<open>phi.assistant.run.AssistantRun\<close>, with the fields that \<^verbatim>\<open>to_database_row\<close> fills
  and \<^verbatim>\<open>from_database_row\<close> reads.
\<close>

record assistant_run =
  row_name :: "string option"
  row_run_id :: "string option"
  row_run_name :: "string option"
  row_user_id :: "string option"
  row_llm :: "pydict option"
  row_memory :: "pydict option"
  row_assistant_data :: "pydict option"
  row_run_data :: "pydict option"
  row_user_data :: "pydict option"
  row_task_data :: "pydict option"

section \<open>Calls to collaborators\<close>

text \<open>
  The assistant's effects outside its own fields are calls to its collaborators. The model
  keeps a log of them, newest first, in the field \<open>calls\<close> of the assistant, so that
  "performs no storage access" and "does not contact the model" are statements about the
  log. Calls that a task makes on its own are not logged; \<^verbatim>\<open>logger\<close> output is not
  modelled.
\<close>

datatype call =
    StorageRead string
  | StorageUpsert assistant_run
  | AddChatMessage message
  | AddLlmMessages "message list"
  | LlmResponse "message list"
  | LlmGenerate "message list"
  | LlmGenerateStream "message list"
  | ApiLogRun assistant_run
  | ApiLogEvent assistant_run string

section \<open>Tasks\<close>

text \<open>
  Modelled from the spec: \<^verbatim>\<open>phi.task.task.Task\<close> and \<^verbatim>\<open>phi.task.llm.LLMTask\<close> are not
  part of the source file. The spec gives a task a visibility flag, a capability flag for
  streaming, a produced output, and a \<^verbatim>\<open>run(message, stream)\<close> that returns a text, a
  structured result or a lazy sequence of fragments, and it accepts the run's identity and
  the shared memory before it executes. What \<^verbatim>\<open>_run\<close> stores on the task before it calls
  \<^verbatim>\<open>run\<close> is the task context. A run of a task returns its response (or its fragments),
  the output it leaves in \<^verbatim>\<open>task.output\<close>, and the shared memory as the task left it.
\<close>

record 'l task_ctx =
  ctx_run_id :: "string option"
  ctx_assistant_name :: "string option"
  ctx_run_message :: pyval
  ctx_parse_output :: bool
  ctx_llm :: "'l option"

record 'l task =
  show_output :: bool
  task_streamable :: bool
  task_output :: pyval
  is_llm_task :: bool
  task_llm :: "'l option"
  run_batch :: "'l task_ctx \<Rightarrow> memory \<Rightarrow> pyval \<Rightarrow> pyval \<times> pyval \<times> memory"
  run_stream :: "'l task_ctx \<Rightarrow> memory \<Rightarrow> pyval \<Rightarrow> pyval list \<times> pyval \<times> memory"

section \<open>The assistant\<close>

text \<open>
  \<^verbatim>\<open>output_model: Optional[Union[str, List, Type[BaseModel]]]\<close>. The code tests
  \<^verbatim>\<open>isinstance\<close> against \<^verbatim>\<open>str\<close>, \<^verbatim>\<open>dict\<close> and \<^verbatim>\<open>list\<close> and then
  \<^verbatim>\<open>issubclass(output_model, BaseModel)\<close>: the field holds a value, a subclass of
  \<^verbatim>\<open>BaseModel\<close> (named), or some other class.
\<close>

datatype output_model = OMValue pyval | OMClass string | OMOtherClass

text \<open>
  The fields of \<^verbatim>\<open>Assistant\<close> that the operations of this module read or write. The
  prompt and tool settings are only handed to the default \<^verbatim>\<open>LLMTask\<close>, whose behaviour
  is a parameter below. \<open>'s\<close> is the state of the storage adapter, \<open>'l\<close> the state of
  the language-model object.
\<close>

record ('s, 'l) assistant =
  llm :: "'l option"
  introduction :: "string option"
  name :: "string option"
  assistant_data :: "pydict option"
  run_id :: "string option"
  run_name :: "string option"
  run_data :: "pydict option"
  user_id :: "string option"
  user_data :: "pydict option"
  memory :: memory
  storage :: "'s option"
  db_row :: "assistant_run option"
  markdown :: bool
  output_model :: "output_model option"
  parse_output :: bool
  output_field :: pyval
  tasks :: "'l task list option"
  task_data :: "pydict option"
  monitoring :: bool
  calls :: "call list"

text \<open>Results of \<^verbatim>\<open>model_validate_json\<close>: the object, a \<^verbatim>\<open>ValidationError\<close>, or another exception.\<close>

datatype validation = Valid pyval | ValidationError | OtherException

text \<open>
  The collaborators, as functions. The storage adapter, the language model, pydantic and
  \<^verbatim>\<open>json\<close> are outside the source file; every operation below takes them as the
  parameter \<open>env\<close>. A function that the code calls inside \<^verbatim>\<open>try\<close> returns an option,
  \<open>None\<close> for an exception. \<^verbatim>\<open>llm.generate\<close> and \<^verbatim>\<open>llm.generate_stream\<close>
  append to the message list they are given (the code reads the model's answer from
  \<^verbatim>\<open>messages[-1]\<close>), so they return the list as well. \<open>str_upper\<close> is Python's
  \<^verbatim>\<open>str.upper\<close>.
\<close>

record ('s, 'l) env =
  storage_read :: "'s \<Rightarrow> string \<Rightarrow> assistant_run option"
  storage_upsert :: "'s \<Rightarrow> assistant_run \<Rightarrow> assistant_run option \<times> 's"
  memory_to_dict :: "memory \<Rightarrow> pydict"
  memory_validate :: "pydict \<Rightarrow> memory option"
  llm_to_dict :: "'l \<Rightarrow> pydict"
  llm_set_metrics :: "'l \<Rightarrow> pyval \<Rightarrow> 'l option"
  llm_response :: "'l \<Rightarrow> message list \<Rightarrow> string \<times> 'l"
  llm_generate :: "'l \<Rightarrow> message list \<Rightarrow> pyval \<times> message list \<times> 'l"
  llm_generate_stream :: "'l \<Rightarrow> message list \<Rightarrow> pyval list \<times> message list \<times> 'l"
  llm_metrics :: "'l \<Rightarrow> pyval"
  str_upper :: "string \<Rightarrow> string"
  model_dump_json :: "pyval \<Rightarrow> string option"
  json_dumps :: "pyval \<Rightarrow> string option"
  json_loads :: "string \<Rightarrow> pyval option"
  model_validate_json :: "string \<Rightarrow> string \<Rightarrow> validation"
  llm_task :: "('s, 'l) assistant \<Rightarrow> 'l task"

section \<open>Run identity\<close>

text \<open>
  \<^verbatim>\<open>set_run_id\<close>, the validator of \<^verbatim>\<open>run_id\<close> that runs at construction also on the
  default: \<^verbatim>\<open>return v if v is not None else str(uuid4())\<close>. The fresh identifier that
  \<^verbatim>\<open>uuid4\<close> draws is the parameter \<open>fresh\<close>.
\<close>

definition set_run_id :: "string \<Rightarrow> string option \<Rightarrow> string" where
  "set_run_id fresh v = (case v of Some r \<Rightarrow> r | None \<Rightarrow> fresh)"

text \<open>Construction: the caller's field values, with \<^verbatim>\<open>run_id\<close> validated.\<close>

definition construct :: "string \<Rightarrow> ('s, 'l) assistant \<Rightarrow> ('s, 'l) assistant" where
  "construct fresh given = given\<lparr>run_id := Some (set_run_id fresh (run_id given))\<rparr>"

section \<open>Persistence reconciliation\<close>

definition to_database_row :: "('s, 'l) env \<Rightarrow> ('s, 'l) assistant \<Rightarrow> assistant_run" where
  "to_database_row env a =
     \<lparr>row_name = name a,
      row_run_id = run_id a,
      row_run_name = run_name a,
      row_user_id = user_id a,
      row_llm = (case llm a of Some l \<Rightarrow> Some (llm_to_dict env l) | None \<Rightarrow> None),
      row_memory = Some (memory_to_dict env (memory a)),
      row_assistant_data = assistant_data a,
      row_run_data = run_data a,
      row_user_data = user_data a,
      row_task_data = task_data a\<rparr>"

text \<open>
  Modelled from the spec: \<^verbatim>\<open>phi.utils.merge_dict.merge_dictionaries(a, b)\<close> is not part
  of the source file. It updates \<open>a\<close> in place with \<open>b\<close>; by the spec the first
  argument is the base and the second takes precedence on key conflicts.
\<close>

definition merge_dictionaries :: "pydict \<Rightarrow> pydict \<Rightarrow> pydict" where
  "merge_dictionaries a b = a ++ b"

text \<open>
  The block that \<^verbatim>\<open>from_database_row\<close> repeats for \<^verbatim>\<open>assistant_data\<close>,
  \<^verbatim>\<open>run_data\<close>, \<^verbatim>\<open>user_data\<close> and \<^verbatim>\<open>task_data\<close>. It takes the live field and the
  row's field and returns both as the code leaves them: \<^verbatim>\<open>merge_dictionaries\<close> mutates
  the row's dictionary, and the live field then refers to that same dictionary.
\<close>

definition reconcile :: "pydict option \<Rightarrow> pydict option \<Rightarrow> pydict option \<times> pydict option" where
  "reconcile live persisted =
     (case persisted of
        None \<Rightarrow> (live, persisted)
      | Some p \<Rightarrow>
          (case live of
             Some l \<Rightarrow> (Some (merge_dictionaries p l), Some (merge_dictionaries p l))
           | None \<Rightarrow> (Some p, Some p)))"

text \<open>
  \<^verbatim>\<open>from_database_row\<close> in the order of the source. First the values that are taken
  from the row when they are not set in the assistant (lines 267 to 275).
\<close>

definition load_identity :: "('s, 'l) assistant \<Rightarrow> assistant_run \<Rightarrow> ('s, 'l) assistant" where
  "load_identity a row =
     (let a1 = (if name a = None \<and> row_name row \<noteq> None then a\<lparr>name := row_name row\<rparr> else a);
          a2 = (if run_id a1 = None \<and> row_run_id row \<noteq> None
                then a1\<lparr>run_id := row_run_id row\<rparr> else a1);
          a3 = (if run_name a2 = None \<and> row_run_name row \<noteq> None
                then a2\<lparr>run_name := row_run_name row\<rparr> else a2)
      in if user_id a3 = None \<and> row_user_id row \<noteq> None
         then a3\<lparr>user_id := row_user_id row\<rparr> else a3)"

text \<open>
  The metrics of the language model (lines 277 to 285): \<^verbatim>\<open>row.llm.get("metrics")\<close> must
  be a \<^verbatim>\<open>dict\<close> and the assistant must have a model; a failing assignment is caught.
\<close>

definition load_llm_metrics ::
  "('s, 'l) env \<Rightarrow> ('s, 'l) assistant \<Rightarrow> assistant_run \<Rightarrow> ('s, 'l) assistant" where
  "load_llm_metrics env a row =
     (case row_llm row of
        None \<Rightarrow> a
      | Some d \<Rightarrow>
          (case d ''metrics'' of
             Some (PDict m) \<Rightarrow>
               (case llm a of
                  Some l \<Rightarrow>
                    (case llm_set_metrics env l (PDict m) of
                       Some l' \<Rightarrow> a\<lparr>llm := Some l'\<rparr>
                     | None \<Rightarrow> a)
                | None \<Rightarrow> a)
           | _ \<Rightarrow> a))"

text \<open>The memory (lines 287 to 292); a row whose memory does not validate is skipped.\<close>

definition load_memory ::
  "('s, 'l) env \<Rightarrow> ('s, 'l) assistant \<Rightarrow> assistant_run \<Rightarrow> ('s, 'l) assistant" where
  "load_memory env a row =
     (case row_memory row of
        None \<Rightarrow> a
      | Some d \<Rightarrow>
          (case memory_validate env d of
             Some m \<Rightarrow> a\<lparr>memory := m\<rparr>
           | None \<Rightarrow> a))"

text \<open>The four metadata dictionaries (lines 294 to 340); the row is mutated as well.\<close>

definition load_data ::
  "('s, 'l) assistant \<Rightarrow> assistant_run \<Rightarrow> ('s, 'l) assistant \<times> assistant_run" where
  "load_data a row =
     (a\<lparr>assistant_data := fst (reconcile (assistant_data a) (row_assistant_data row)),
        run_data := fst (reconcile (run_data a) (row_run_data row)),
        user_data := fst (reconcile (user_data a) (row_user_data row)),
        task_data := fst (reconcile (task_data a) (row_task_data row))\<rparr>,
      row\<lparr>row_assistant_data := snd (reconcile (assistant_data a) (row_assistant_data row)),
          row_run_data := snd (reconcile (run_data a) (row_run_data row)),
          row_user_data := snd (reconcile (user_data a) (row_user_data row)),
          row_task_data := snd (reconcile (task_data a) (row_task_data row))\<rparr>)"

text \<open>
  \<^verbatim>\<open>from_database_row\<close> returns the assistant and the row, since it mutates both.
\<close>

definition from_database_row ::
  "('s, 'l) env \<Rightarrow> ('s, 'l) assistant \<Rightarrow> assistant_run \<Rightarrow> ('s, 'l) assistant \<times> assistant_run" where
  "from_database_row env a row =
     load_data (load_memory env (load_llm_metrics env (load_identity a row) row) row) row"

text \<open>
  \<^verbatim>\<open>read_from_storage\<close> returns what the code returns and the assistant as the call
  leaves it. The record read is stored in \<^verbatim>\<open>db_row\<close> before the user ids are compared.
\<close>

definition read_from_storage ::
  "('s, 'l) env \<Rightarrow> ('s, 'l) assistant \<Rightarrow> assistant_run option \<times> ('s, 'l) assistant" where
  "read_from_storage env a =
     (case storage a of
        None \<Rightarrow> (db_row a, a)
      | Some st \<Rightarrow>
          (case run_id a of
             None \<Rightarrow> (db_row a, a)
           | Some rid \<Rightarrow>
               (let a1 = a\<lparr>db_row := storage_read env st rid, calls := StorageRead rid # calls a\<rparr>
                in case db_row a1 of
                     None \<Rightarrow> (None, a1)
                   | Some row \<Rightarrow>
                       if user_id a1 \<noteq> None \<and> row_user_id row \<noteq> user_id a1 then (None, a1)
                       else (let (a2, row') = from_database_row env a1 row
                             in (Some row', a2\<lparr>db_row := Some row'\<rparr>)))))"

definition write_to_storage ::
  "('s, 'l) env \<Rightarrow> ('s, 'l) assistant \<Rightarrow> assistant_run option \<times> ('s, 'l) assistant" where
  "write_to_storage env a =
     (case storage a of
        None \<Rightarrow> (db_row a, a)
      | Some st \<Rightarrow>
          (let row = to_database_row env a;
               (r, st') = storage_upsert env st row
           in (r, a\<lparr>db_row := r, storage := Some st', calls := StorageUpsert row # calls a\<rparr>)))"

section \<open>Creating a run\<close>

text \<open>
  \<^verbatim>\<open>_api_log_assistant_run\<close> and \<^verbatim>\<open>_api_log_assistant_event\<close> (an Isabelle name
  cannot start with an underscore). They send \<^verbatim>\<open>self.db_row or self.to_database_row()\<close>
  to the monitoring service when monitoring is on; their failures are swallowed.
\<close>

definition api_log_assistant_run :: "('s, 'l) env \<Rightarrow> ('s, 'l) assistant \<Rightarrow> ('s, 'l) assistant" where
  "api_log_assistant_run env a =
     (if \<not> monitoring a then a
      else a\<lparr>calls := ApiLogRun (case db_row a of Some r \<Rightarrow> r | None \<Rightarrow> to_database_row env a)
                       # calls a\<rparr>)"

definition api_log_assistant_event ::
  "('s, 'l) env \<Rightarrow> string \<Rightarrow> ('s, 'l) assistant \<Rightarrow> ('s, 'l) assistant" where
  "api_log_assistant_event env event_type a =
     (if \<not> monitoring a then a
      else a\<lparr>calls := ApiLogEvent (case db_row a of Some r \<Rightarrow> r | None \<Rightarrow> to_database_row env a)
                         event_type # calls a\<rparr>)"

definition add_introduction :: "string option \<Rightarrow> ('s, 'l) assistant \<Rightarrow> ('s, 'l) assistant" where
  "add_introduction intro a =
     (case intro of
        None \<Rightarrow> a
      | Some i \<Rightarrow>
          if length (chat_history (memory a)) = 0
          then a\<lparr>memory := add_chat_message \<lparr>role = ''assistant'', content = i\<rparr> (memory a),
                 calls := AddChatMessage \<lparr>role = ''assistant'', content = i\<rparr> # calls a\<rparr>
          else a)"

text \<open>\<^verbatim>\<open>if self.introduction:\<close> holds for a string that is not empty.\<close>

definition str_truthy :: "string option \<Rightarrow> bool" where
  "str_truthy s = (case s of None \<Rightarrow> False | Some t \<Rightarrow> t \<noteq> [])"

definition create_run ::
  "('s, 'l) env \<Rightarrow> ('s, 'l) assistant \<Rightarrow> (error + string option) \<times> ('s, 'l) assistant" where
  "create_run env a =
     (case db_row a of
        Some row \<Rightarrow> (Inr (row_run_id row), a)
      | None \<Rightarrow>
          (case storage a of
             None \<Rightarrow> (Inr (run_id a), a)
           | Some st \<Rightarrow>
               (let a1 = snd (read_from_storage env a)
                in case db_row a1 of
                     Some row \<Rightarrow> (Inr (run_id a1), a1)
                   | None \<Rightarrow>
                       (let a2 = (if str_truthy (introduction a1)
                                  then add_introduction (introduction a1) a1 else a1);
                            a3 = snd (write_to_storage env a2)
                        in case db_row a3 of
                             None \<Rightarrow> (Inl (Error ''Failed to create new assistant run in storage''), a3)
                           | Some row \<Rightarrow>
                               (let (a4, row') = from_database_row env a3 row;
                                    a5 = api_log_assistant_run env (a4\<lparr>db_row := Some row'\<rparr>)
                                in (Inr (run_id a5), a5))))))"

section \<open>Python string operations\<close>

text \<open>\<^verbatim>\<open>str.isspace\<close> on the code points below 256.\<close>

definition isspace :: "char \<Rightarrow> bool" where
  "isspace c = ((of_char c :: nat) \<in> {9, 10, 11, 12, 13, 28, 29, 30, 31, 32, 133, 160})"

text \<open>\<^verbatim>\<open>s.split()\<close>: the maximal runs of characters that are not whitespace.\<close>

function str_split :: "string \<Rightarrow> string list" where
  "str_split s =
     (let t = dropWhile isspace s
      in if t = [] then []
         else takeWhile (\<lambda>c. \<not> isspace c) t # str_split (dropWhile (\<lambda>c. \<not> isspace c) t))"
  by pat_completeness auto

lemma str_split_shorter:
  assumes "dropWhile isspace s \<noteq> []"
  shows "length (dropWhile (\<lambda>c. \<not> isspace c) (dropWhile isspace s)) < length s"
proof -
  obtain c cs where t: "dropWhile isspace s = c # cs"
    using assms by (cases "dropWhile isspace s") auto
  have "\<not> isspace c"
    using hd_dropWhile [of isspace s] assms t by auto
  then have "length (dropWhile (\<lambda>c. \<not> isspace c) (c # cs)) \<le> length cs"
    by (simp add: length_dropWhile_le)
  moreover have "length (c # cs) \<le> length s"
    using t length_dropWhile_le [of isspace s] by simp
  ultimately show ?thesis
    using t by simp
qed

termination str_split
  by (relation "measure length") (auto simp: str_split_shorter)

declare str_split.simps [simp del]

text \<open>\<^verbatim>\<open>s.strip()\<close>.\<close>

definition str_strip :: "string \<Rightarrow> string" where
  "str_strip s = rev (dropWhile isspace (rev (dropWhile isspace s)))"

text \<open>
  \<^verbatim>\<open>s.replace(old, new)\<close>: every occurrence of \<open>old\<close>, found from the left without
  overlap. \<open>replace_from\<close> is the scan for an \<open>old\<close> that is not empty: after a match
  at \<open>c # cs\<close> it continues behind the match, \<open>length old - 1\<close> characters into
  \<open>cs\<close>.
\<close>

fun replace_from :: "string \<Rightarrow> string \<Rightarrow> string \<Rightarrow> string" where
  "replace_from old new [] = []"
| "replace_from old new (c # cs) =
     (if prefix old (c # cs) then new @ replace_from old new (drop (length old - 1) cs)
      else c # replace_from old new cs)"

definition str_replace :: "string \<Rightarrow> string \<Rightarrow> string \<Rightarrow> string" where
  "str_replace old new s =
     (if old = [] then new @ concat (map (\<lambda>c. c # new) s) else replace_from old new s)"

definition startswith :: "string \<Rightarrow> string \<Rightarrow> bool" where
  "startswith s p = prefix p s"

section \<open>Naming\<close>

text \<open>
  The messages that \<^verbatim>\<open>generate_name\<close> condenses: \<^verbatim>\<open>chat_history[1:6]\<close> when the
  first visible message is the assistant's, \<^verbatim>\<open>chat_history[:6]\<close> otherwise; the
  \<^verbatim>\<open>IndexError\<close> of an empty history is caught, and an empty selection falls back to
  \<^verbatim>\<open>llm_messages[-4:]\<close>.
\<close>

definition messages_for_generating_name :: "memory \<Rightarrow> message list" where
  "messages_for_generating_name mem =
     (let sel = (case chat_history mem of
                   [] \<Rightarrow> []
                 | m # rest \<Rightarrow> if role m = ''assistant'' then take 5 rest
                              else take 6 (chat_history mem))
      in if length sel = 0
         then drop (length (llm_messages mem) - 4) (llm_messages mem)
         else sel)"

definition generate_name_messages :: "('s, 'l) env \<Rightarrow> memory \<Rightarrow> message list" where
  "generate_name_messages env mem =
     [\<lparr>role = ''system'',
       content = ''Please provide a suitable name for this conversation in maximum 5 words. ''
                 @ ''Remember, do not exceed 5 words.''\<rparr>,
      \<lparr>role = ''user'',
       content = ''Conversation'' @ [CHR 0x0A]
                 @ concat (map (\<lambda>m. str_upper env (role m) @ '': '' @ content m @ [CHR 0x0A])
                             (messages_for_generating_name mem))
                 @ [CHR 0x0A, CHR 0x0A] @ ''Conversation Name: ''\<rparr>]"

text \<open>
  \<^verbatim>\<open>generate_name\<close> calls itself again whenever the answer has more than 15 words, with
  no bound: \<open>None\<close> is a call that never returns.
\<close>

partial_function (option) generate_name ::
  "('s, 'l) env \<Rightarrow> ('s, 'l) assistant \<Rightarrow> ((error + string) \<times> ('s, 'l) assistant) option" where
  "generate_name env a =
     (case llm a of
        None \<Rightarrow> Some (Inl (Error ''LLM not set''), a)
      | Some l \<Rightarrow>
          (let msgs = generate_name_messages env (memory a);
               generated_name = fst (llm_response env l msgs);
               a' = a\<lparr>llm := Some (snd (llm_response env l msgs)), calls := LlmResponse msgs # calls a\<rparr>
           in if length (str_split generated_name) > 15 then generate_name env a'
              else Some (Inr (str_strip (str_replace [CHR 0x22] [] generated_name)), a')))"

section \<open>The run pipeline\<close>

text \<open>
  The input of a task (lines 431 to 440 of the source): the previous task's output when
  there is one, serialised with \<^verbatim>\<open>model_dump_json\<close> when it is a \<^verbatim>\<open>BaseModel\<close>, and
  the caller's message otherwise. The serialisation is outside any \<^verbatim>\<open>try\<close> here.
\<close>

definition current_task_message ::
  "('s, 'l) env \<Rightarrow> 'l task option \<Rightarrow> pyval \<Rightarrow> error + pyval" where
  "current_task_message env previous_task message =
     (case previous_task of
        None \<Rightarrow> Inr message
      | Some p \<Rightarrow>
          if task_output p \<noteq> PNone then
            (case task_output p of
               PModel c fs \<Rightarrow>
                 (case model_dump_json env (PModel c fs) of
                    Some s \<Rightarrow> Inr (PStr s)
                  | None \<Rightarrow> Inl SerializationError)
             | v \<Rightarrow> Inr v)
          else Inr message)"

text \<open>
  A task's response as text (lines 469 to 477): a string as it is, a \<^verbatim>\<open>BaseModel\<close>
  through \<^verbatim>\<open>model_dump_json\<close>, anything else through \<^verbatim>\<open>json.dumps\<close>; \<open>None\<close> when
  the conversion raises.
\<close>

definition response_str :: "('s, 'l) env \<Rightarrow> pyval \<Rightarrow> string option" where
  "response_str env r =
     (case r of
        PStr s \<Rightarrow> Some s
      | PModel c fs \<Rightarrow> model_dump_json env (PModel c fs)
      | v \<Rightarrow> json_dumps env v)"

text \<open>\<^verbatim>\<open>chunk if isinstance(chunk, str) else ""\<close>.\<close>

definition chunk_str :: "pyval \<Rightarrow> string" where
  "chunk_str v = (case v of PStr s \<Rightarrow> s | _ \<Rightarrow> [])"

text \<open>
  The local variables of \<^verbatim>\<open>_run\<close>: \<^verbatim>\<open>current_task\<close>, \<^verbatim>\<open>run_output\<close>, the chunks
  yielded so far, the tasks already run (as their run left them), and the exception that
  ended the loop, if any. \<open>inputs\<close> is a record that the code does not keep: the
  messages handed to \<^verbatim>\<open>task.run\<close>, in the order of the calls.
\<close>

record 'l locals =
  current_task :: "'l task option"
  run_output :: string
  yielded :: "string list"
  done_tasks :: "'l task list"
  inputs :: "pyval list"
  raised :: "error option"

definition initial_locals :: "'l locals" where
  "initial_locals =
     \<lparr>current_task = None, run_output = [], yielded = [], done_tasks = [], inputs = [],
      raised = None\<rparr>"

text \<open>
  The update of the task before it runs (lines 442 to 457): an \<^verbatim>\<open>LLMTask\<close> without a
  model gets a copy of the assistant's; the run's identity, the caller's message and
  \<^verbatim>\<open>parse_output = False\<close> are stored on the task. \<^verbatim>\<open>run_task_data\<close>, the list that
  tasks append their metadata to for the monitoring event, is not modelled.
\<close>

definition update_llm :: "('s, 'l) assistant \<Rightarrow> 'l task \<Rightarrow> 'l task" where
  "update_llm a task =
     task\<lparr>task_llm := (if is_llm_task task \<and> task_llm task = None \<and> llm a \<noteq> None
                        then llm a else task_llm task)\<rparr>"

definition task_context :: "('s, 'l) assistant \<Rightarrow> pyval \<Rightarrow> 'l task \<Rightarrow> 'l task_ctx" where
  "task_context a message task =
     \<lparr>ctx_run_id = run_id a, ctx_assistant_name = name a, ctx_run_message = message,
      ctx_parse_output = False, ctx_llm = task_llm task\<rparr>"

text \<open>The text that a response contributes (lines 467 to 477 and the \<^verbatim>\<open>except\<close>).\<close>

definition response_text :: "('s, 'l) env \<Rightarrow> pyval \<Rightarrow> string option" where
  "response_text env r = (if truthy r then response_str env r else None)"

definition separator :: string where
  "separator = [CHR 0x0A, CHR 0x0A]"

text \<open>One iteration of the loop over the tasks (lines 419 to 487).\<close>

definition run_task ::
  "('s, 'l) env \<Rightarrow> pyval \<Rightarrow> bool \<Rightarrow> 'l task \<Rightarrow> ('s, 'l) assistant \<times> 'l locals
     \<Rightarrow> ('s, 'l) assistant \<times> 'l locals" where
  "run_task env message stream task st =
     (let a = fst st;
          lv = snd st;
          previous_task = current_task lv;
          lv1 = (if (case previous_task of Some p \<Rightarrow> show_output p | None \<Rightarrow> False)
                 then lv\<lparr>run_output := run_output lv @ separator,
                         yielded := yielded lv @ (if stream then [separator] else [])\<rparr>
                 else lv);
          lv2 = lv1\<lparr>current_task := Some task\<rparr>
      in case current_task_message env previous_task message of
           Inl e \<Rightarrow> (a, lv2\<lparr>raised := Some e\<rparr>)
         | Inr msg \<Rightarrow>
             (let task1 = update_llm a task;
                  ctx = task_context a message task1;
                  lv3 = lv2\<lparr>inputs := inputs lv2 @ [msg]\<rparr>
              in if stream \<and> task_streamable task1 then
                   (let res = run_stream task1 ctx (memory a) msg;
                        strs = map chunk_str (fst res);
                        task2 = task1\<lparr>task_output := fst (snd res)\<rparr>;
                        lv4 = (if show_output task2
                               then lv3\<lparr>run_output := run_output lv3 @ concat strs,
                                        yielded := yielded lv3 @ strs\<rparr>
                               else lv3)
                    in (a\<lparr>memory := snd (snd res)\<rparr>,
                        lv4\<lparr>current_task := Some task2, done_tasks := done_tasks lv4 @ [task2]\<rparr>))
                 else
                   (let res = run_batch task1 ctx (memory a) msg;
                        task2 = task1\<lparr>task_output := fst (snd res)\<rparr>;
                        lv4 = (case response_text env (fst res) of
                                 None \<Rightarrow> lv3
                               | Some s \<Rightarrow>
                                   if show_output task2 then
                                     (if stream then lv3\<lparr>yielded := yielded lv3 @ [s]\<rparr>
                                      else lv3\<lparr>run_output := run_output lv3 @ s\<rparr>)
                                   else lv3)
                    in (a\<lparr>memory := snd (snd res)\<rparr>,
                        lv4\<lparr>current_task := Some task2, done_tasks := done_tasks lv4 @ [task2]\<rparr>))))"

fun run_tasks ::
  "('s, 'l) env \<Rightarrow> pyval \<Rightarrow> bool \<Rightarrow> 'l task list \<Rightarrow> ('s, 'l) assistant \<times> 'l locals
     \<Rightarrow> ('s, 'l) assistant \<times> 'l locals" where
  "run_tasks env message stream [] st = st"
| "run_tasks env message stream (task # rest) st =
     (let st' = run_task env message stream task st
      in if raised (snd st') \<noteq> None then st' else run_tasks env message stream rest st')"

text \<open>
  \<^verbatim>\<open>_run\<close>, a generator: the model runs its body to the end and returns the chunks it
  yields in order, the exception that ended it (if any), and the assistant as it leaves
  it. The tasks of a configured list are objects that the run mutates; the default task is
  built for the run and dropped.
\<close>

definition run_body ::
  "('s, 'l) env \<Rightarrow> ('s, 'l) assistant \<Rightarrow> pyval \<Rightarrow> bool
     \<Rightarrow> string list \<times> error option \<times> ('s, 'l) assistant" where
  "run_body env a message stream =
     (let a1 = snd (read_from_storage env a);
          configured = (case tasks a1 of None \<Rightarrow> False | Some ts \<Rightarrow> length ts \<noteq> 0);
          ts = (case tasks a1 of
                  None \<Rightarrow> [llm_task env a1]
                | Some l \<Rightarrow> if length l = 0 then [llm_task env a1] else l);
          st = run_tasks env message stream ts (a1, initial_locals);
          lv = snd st;
          a2 = (if configured
                then (fst st)\<lparr>tasks := Some (done_tasks lv @ drop (length (done_tasks lv)) ts)\<rparr>
                else fst st)
      in case raised lv of
           Some e \<Rightarrow> (yielded lv, Some e, a2)
         | None \<Rightarrow>
             (let a3 = snd (write_to_storage env a2);
                  a4 = api_log_assistant_event env ''run'' a3;
                  a5 = a4\<lparr>output_field := PStr (run_output lv)\<rparr>
              in (yielded lv @ (if stream then [] else [run_output lv]), None, a5)))"

section \<open>Structured output\<close>

text \<open>
  What an operation returns: a value, or a generator that the caller has not started.
  A generator is the body still to run, on the assistant as it is when the caller pulls.
\<close>

datatype ('v, 'c, 'st) returned =
    Value 'v
  | Generator "'st \<Rightarrow> 'c list \<times> error option \<times> 'st"

text \<open>\<^verbatim>\<open>next(gen)\<close> on the chunks of a generator that was run.\<close>

definition next_chunk :: "'c list \<times> error option \<times> 'st \<Rightarrow> (error + 'c) \<times> 'st" where
  "next_chunk r =
     (case fst r of
        c # cs \<Rightarrow> (Inr c, snd (snd r))
      | [] \<Rightarrow> (case fst (snd r) of
                 Some e \<Rightarrow> (Inl e, snd (snd r))
               | None \<Rightarrow> (Inl StopIteration, snd (snd r))))"

definition is_container_marker :: "pyval \<Rightarrow> bool" where
  "is_container_marker v =
     (case v of PStr s \<Rightarrow> True | PDict d \<Rightarrow> True | PList l \<Rightarrow> True | _ \<Rightarrow> False)"

definition fence_open :: string where
  "fence_open = [CHR 0x60, CHR 0x60, CHR 0x60] @ ''json''"

definition fence_open_nl :: string where
  "fence_open_nl = fence_open @ [CHR 0x0A]"

definition fence_close :: string where
  "fence_close = [CHR 0x0A, CHR 0x60, CHR 0x60, CHR 0x60]"

text \<open>
  The \<^verbatim>\<open>try\<close> block of \<^verbatim>\<open>run\<close> (lines 525 to 549): it returns
  \<^verbatim>\<open>structured_output\<close> (\<open>PNone\<close> when no attempt produced one or an exception was
  caught) and \<^verbatim>\<open>json_resp\<close> as the block leaves it.
\<close>

definition parse_structured ::
  "('s, 'l) env \<Rightarrow> output_model \<Rightarrow> string \<Rightarrow> pyval \<times> string" where
  "parse_structured env om json_resp =
     (case om of
        OMValue v \<Rightarrow>
          if is_container_marker v then
            (case json_loads env json_resp of
               Some r \<Rightarrow> (r, json_resp)
             | None \<Rightarrow> (PNone, json_resp))
          else (PNone, json_resp)
      | OMClass c \<Rightarrow>
          (case model_validate_json env c json_resp of
             Valid v \<Rightarrow> (v, json_resp)
           | OtherException \<Rightarrow> (PNone, json_resp)
           | ValidationError \<Rightarrow>
               if startswith json_resp fence_open then
                 (let stripped = str_replace fence_close [] (str_replace fence_open_nl [] json_resp)
                  in case model_validate_json env c stripped of
                       Valid v \<Rightarrow> (v, stripped)
                     | _ \<Rightarrow> (PNone, stripped))
               else (PNone, json_resp))
      | OMOtherClass \<Rightarrow> (PNone, json_resp))"

text \<open>The property \<^verbatim>\<open>streamable\<close> of the assistant.\<close>

definition streamable :: "('s, 'l) assistant \<Rightarrow> bool" where
  "streamable a = (output_model a = None)"

definition run ::
  "('s, 'l) env \<Rightarrow> ('s, 'l) assistant \<Rightarrow> pyval \<Rightarrow> bool
     \<Rightarrow> (error + (pyval, string, ('s, 'l) assistant) returned) \<times> ('s, 'l) assistant" where
  "run env a message stream =
     (if output_model a \<noteq> None \<and> parse_output a then
        (case next_chunk (run_body env a message False) of
           (Inl e, a1) \<Rightarrow> (Inl e, a1)
         | (Inr json_resp, a1) \<Rightarrow>
             (let parsed = (case output_model a1 of
                              Some om \<Rightarrow> parse_structured env om json_resp
                            | None \<Rightarrow> (PNone, json_resp));
                  a2 = (if fst parsed \<noteq> PNone then a1\<lparr>output_field := fst parsed\<rparr> else a1)
              in (Inr (Value (if truthy (output_field a2) then output_field a2
                              else PStr (snd parsed))), a2)))
      else if stream \<and> streamable a then
        (Inr (Generator (\<lambda>s. run_body env s message True)), a)
      else
        (case next_chunk (run_body env a message False) of
           (Inl e, a1) \<Rightarrow> (Inl e, a1)
         | (Inr r, a1) \<Rightarrow> (Inr (Value (PStr r)), a1)))"

section \<open>Raw chat\<close>

text \<open>
  \<^verbatim>\<open>_chat_raw\<close>, a generator, run to the end as \<open>run_body\<close> is. The failure of
  \<^verbatim>\<open>add_chat_message\<close> that the code catches is not modelled.
\<close>

definition chat_raw_body ::
  "('s, 'l) env \<Rightarrow> ('s, 'l) assistant \<Rightarrow> message list \<Rightarrow> string option \<Rightarrow> bool
     \<Rightarrow> pyval list \<times> error option \<times> ('s, 'l) assistant" where
  "chat_raw_body env a messages user_message stream =
     (case llm a of
        None \<Rightarrow> ([], Some (Error ''LLM not set''), a)
      | Some l0 \<Rightarrow>
          (let a1 = snd (read_from_storage env a);
               a2 = (case user_message of
                       None \<Rightarrow> a1
                     | Some u \<Rightarrow>
                         if u \<noteq> []
                         then a1\<lparr>memory := add_chat_message \<lparr>role = ''user'', content = u\<rparr> (memory a1),
                                 calls := AddChatMessage \<lparr>role = ''user'', content = u\<rparr> # calls a1\<rparr>
                         else a1)
           in case llm a2 of
                None \<Rightarrow> ([], Some AttributeError, a2)
              | Some l \<Rightarrow>
                  (let deltas = (if stream then fst (llm_generate_stream env l messages) else []);
                       batch = (if stream then PDict [] else fst (llm_generate env l messages));
                       messages' = (if stream then fst (snd (llm_generate_stream env l messages))
                                    else fst (snd (llm_generate env l messages)));
                       l' = (if stream then snd (snd (llm_generate_stream env l messages))
                             else snd (snd (llm_generate env l messages)));
                       a3 = a2\<lparr>llm := Some l',
                               memory := add_llm_messages messages' (memory a2),
                               calls := AddLlmMessages messages'
                                        # (if stream then LlmGenerateStream messages
                                           else LlmGenerate messages) # calls a2\<rparr>
                   in if messages' = [] then (deltas, Some IndexError, a3)
                      else
                        (let a4 = a3\<lparr>memory := add_chat_message (last messages') (memory a3),
                                     calls := AddChatMessage (last messages') # calls a3\<rparr>;
                             a5 = snd (write_to_storage env a4);
                             a6 = api_log_assistant_event env ''chat_raw'' a5
                         in (deltas @ (if stream then [] else [batch]), None, a6)))))"

definition chat_raw ::
  "('s, 'l) env \<Rightarrow> ('s, 'l) assistant \<Rightarrow> message list \<Rightarrow> string option \<Rightarrow> bool
     \<Rightarrow> (error + (pyval, pyval, ('s, 'l) assistant) returned) \<times> ('s, 'l) assistant" where
  "chat_raw env a messages user_message stream =
     (if (case tasks a of None \<Rightarrow> False | Some ts \<Rightarrow> length ts > 0)
      then (Inl (Error ''chat_raw does not support tasks''), a)
      else if stream
      then (Inr (Generator (\<lambda>s. chat_raw_body env s messages user_message stream)), a)
      else (case next_chunk (chat_raw_body env a messages user_message stream) of
              (Inl e, a1) \<Rightarrow> (Inl e, a1)
            | (Inr r, a1) \<Rightarrow> (Inr (Value r), a1)))"

section \<open>Renaming and the console\<close>

definition rename :: "('s, 'l) env \<Rightarrow> ('s, 'l) assistant \<Rightarrow> string \<Rightarrow> ('s, 'l) assistant" where
  "rename env a n =
     api_log_assistant_run env
       (snd (write_to_storage env ((snd (read_from_storage env a))\<lparr>name := Some n\<rparr>)))"

definition rename_run :: "('s, 'l) env \<Rightarrow> ('s, 'l) assistant \<Rightarrow> string \<Rightarrow> ('s, 'l) assistant" where
  "rename_run env a n =
     api_log_assistant_run env
       (snd (write_to_storage env ((snd (read_from_storage env a))\<lparr>run_name := Some n\<rparr>)))"

definition auto_rename_run ::
  "('s, 'l) env \<Rightarrow> ('s, 'l) assistant \<Rightarrow> (error option \<times> ('s, 'l) assistant) option" where
  "auto_rename_run env a =
     (case generate_name env (snd (read_from_storage env a)) of
        None \<Rightarrow> None
      | Some (Inl e, a1) \<Rightarrow> Some (Some e, a1)
      | Some (Inr n, a1) \<Rightarrow>
          Some (None, api_log_assistant_run env
                        (snd (write_to_storage env (a1\<lparr>run_name := Some n\<rparr>)))))"

text \<open>
  \<^verbatim>\<open>print_response\<close>, without the rendering: it sets the markdown flag, forces the batch
  mode when an output model is configured, calls \<^verbatim>\<open>run\<close> and, in streaming mode, pulls
  every chunk.
\<close>

definition print_response ::
  "('s, 'l) env \<Rightarrow> ('s, 'l) assistant \<Rightarrow> pyval \<Rightarrow> bool \<Rightarrow> bool \<Rightarrow> error option \<times> ('s, 'l) assistant" where
  "print_response env a message stream md =
     (let a1 = (if md then a\<lparr>markdown := True\<rparr> else a);
          a2 = (if output_model a1 \<noteq> None then a1\<lparr>markdown := False\<rparr> else a1);
          stream' = (if output_model a1 \<noteq> None then False else stream)
      in case run env a2 message stream' of
           (Inl e, a3) \<Rightarrow> (Some e, a3)
         | (Inr (Value v), a3) \<Rightarrow> (None, a3)
         | (Inr (Generator g), a3) \<Rightarrow> (fst (snd (g a3)), snd (snd (g a3))))"

text \<open>
  \<^verbatim>\<open>cli_app\<close> on the lines that the user types at the prompt: it stops at a line of
  \<^verbatim>\<open>exit_on\<close>, at an exception, or waits when the lines are used up.
\<close>

fun cli_app ::
  "('s, 'l) env \<Rightarrow> bool \<Rightarrow> bool \<Rightarrow> string list \<Rightarrow> string list \<Rightarrow> ('s, 'l) assistant
     \<Rightarrow> error option \<times> ('s, 'l) assistant" where
  "cli_app env stream md exit_on [] a = (None, a)"
| "cli_app env stream md exit_on (line # rest) a =
     (if line \<in> set exit_on then (None, a)
      else (case print_response env a (PStr line) stream md of
              (Some e, a1) \<Rightarrow> (Some e, a1)
            | (None, a1) \<Rightarrow> cli_app env stream md exit_on rest a1))"

section \<open>The states an assistant can reach\<close>

text \<open>
  An assistant is constructed and then changed only by its own operations. Pulling a
  generator that \<^verbatim>\<open>run\<close> or \<^verbatim>\<open>chat_raw\<close> returned runs the body on the assistant as
  it is then.
\<close>

inductive reachable :: "('s, 'l) env \<Rightarrow> ('s, 'l) assistant \<Rightarrow> bool" for env :: "('s, 'l) env" where
  constructed: "reachable env (construct fresh given)"
| loaded: "reachable env a \<Longrightarrow> reachable env (fst (from_database_row env a row))"
| read: "reachable env a \<Longrightarrow> reachable env (snd (read_from_storage env a))"
| written: "reachable env a \<Longrightarrow> reachable env (snd (write_to_storage env a))"
| introduced: "reachable env a \<Longrightarrow> reachable env (add_introduction intro a)"
| created: "reachable env a \<Longrightarrow> reachable env (snd (create_run env a))"
| ran: "reachable env a \<Longrightarrow> reachable env (snd (run env a message stream))"
| pulled: "reachable env a \<Longrightarrow> reachable env (snd (snd (run_body env a message stream)))"
| chatted: "reachable env a \<Longrightarrow> reachable env (snd (chat_raw env a messages user_message stream))"
| chat_pulled:
    "reachable env a \<Longrightarrow> reachable env (snd (snd (chat_raw_body env a messages user_message stream)))"
| renamed: "reachable env a \<Longrightarrow> reachable env (rename env a n)"
| run_renamed: "reachable env a \<Longrightarrow> reachable env (rename_run env a n)"
| named: "reachable env a \<Longrightarrow> generate_name env a = Some (r, a') \<Longrightarrow> reachable env a'"
| auto_renamed: "reachable env a \<Longrightarrow> auto_rename_run env a = Some (e, a') \<Longrightarrow> reachable env a'"
| printed: "reachable env a \<Longrightarrow> reachable env (snd (print_response env a message stream md))"
| talked: "reachable env a \<Longrightarrow> reachable env (snd (cli_app env stream md exit_on lines a))"

section \<open>A sample environment\<close>

text \<open>
  For instantiating the theorems: the field defaults of the class \<^verbatim>\<open>Assistant\<close>, a
  storage adapter that is a dictionary keyed by run id, and a language model that answers
  from a script (its state is the list of answers still to give).
\<close>

definition defaults :: "('s, 'l) assistant" where
  "defaults =
     \<lparr>llm = None, introduction = None, name = None, assistant_data = None, run_id = None,
      run_name = None, run_data = None, user_id = None, user_data = None,
      memory = \<lparr>chat_history = [], llm_messages = []\<rparr>, storage = None, db_row = None,
      markdown = False, output_model = None, parse_output = True, output_field = PNone,
      tasks = None, task_data = None, monitoring = False, calls = []\<rparr>"

definition dict_upsert ::
  "(string \<rightharpoonup> assistant_run) \<Rightarrow> assistant_run
     \<Rightarrow> assistant_run option \<times> (string \<rightharpoonup> assistant_run)" where
  "dict_upsert st row =
     (case row_run_id row of None \<Rightarrow> (None, st) | Some r \<Rightarrow> (Some row, st(r \<mapsto> row)))"

definition scripted_response :: "string list \<Rightarrow> string \<times> string list" where
  "scripted_response l = (case l of [] \<Rightarrow> ([], []) | r # rs \<Rightarrow> (r, rs))"

definition json_a1 :: string where
  "json_a1 = ''{'' @ [CHR 0x22] @ ''a'' @ [CHR 0x22] @ '':1}''"

definition echo_task :: "'l task" where
  "echo_task =
     \<lparr>show_output = True, task_streamable = True, task_output = PNone, is_llm_task = True,
      task_llm = None,
      run_batch = (\<lambda>ctx m msg. (msg, msg, m)),
      run_stream = (\<lambda>ctx m msg. ([msg], msg, m))\<rparr>"

definition sample_env :: "(string \<rightharpoonup> assistant_run, string list) env" where
  "sample_env =
     \<lparr>storage_read = (\<lambda>st r. st r),
      storage_upsert = dict_upsert,
      memory_to_dict = (\<lambda>m. Map.empty),
      memory_validate = (\<lambda>d. None),
      llm_to_dict = (\<lambda>l. Map.empty),
      llm_set_metrics = (\<lambda>l v. Some l),
      llm_response = (\<lambda>l msgs. scripted_response l),
      llm_generate = (\<lambda>l msgs. (PStr (fst (scripted_response l)),
                                  msgs @ [\<lparr>role = ''assistant'', content = fst (scripted_response l)\<rparr>],
                                  snd (scripted_response l))),
      llm_generate_stream = (\<lambda>l msgs. ([PStr (fst (scripted_response l))],
                                  msgs @ [\<lparr>role = ''assistant'', content = fst (scripted_response l)\<rparr>],
                                  snd (scripted_response l))),
      llm_metrics = (\<lambda>l. PNone),
      str_upper = (\<lambda>s. s),
      model_dump_json = (\<lambda>v. Some json_a1),
      json_dumps = (\<lambda>v. None),
      json_loads = (\<lambda>s. None),
      model_validate_json = (\<lambda>c s. if s = json_a1 then Valid (PModel c [(''a'', PInt 1)])
                                     else ValidationError),
      llm_task = (\<lambda>a. echo_task)\<rparr>"

text \<open>
  A run \<^verbatim>\<open>r1\<close> that storage holds for the user \<^verbatim>\<open>bob\<close>, and an assistant of the user
  \<^verbatim>\<open>alice\<close> that is given the same run id.
\<close>

definition foreign_row :: assistant_run where
  "foreign_row =
     \<lparr>row_name = None, row_run_id = Some ''r1'', row_run_name = None, row_user_id = Some ''bob'',
      row_llm = None, row_memory = None, row_assistant_data = None,
      row_run_data = Some [''secret'' \<mapsto> PInt 7], row_user_data = None, row_task_data = None\<rparr>"

definition alice :: "(string \<rightharpoonup> assistant_run, string list) assistant" where
  "alice = defaults\<lparr>run_id := Some ''r1'', user_id := Some ''alice'',
                    storage := Some [''r1'' \<mapsto> foreign_row]\<rparr>"

section \<open>What each stage of loading a row changes\<close>

lemma reconcile_fst:
  "fst (reconcile live persisted) =
     (case persisted of None \<Rightarrow> live
      | Some p \<Rightarrow> (case live of None \<Rightarrow> Some p | Some l \<Rightarrow> Some (merge_dictionaries p l)))"
  by (simp add: reconcile_def split: option.splits)

lemma load_identity_fields:
  "name (load_identity a row) = (case name a of None \<Rightarrow> row_name row | Some n \<Rightarrow> Some n)"
  "run_id (load_identity a row) = (case run_id a of None \<Rightarrow> row_run_id row | Some n \<Rightarrow> Some n)"
  "run_name (load_identity a row) = (case run_name a of None \<Rightarrow> row_run_name row | Some n \<Rightarrow> Some n)"
  "user_id (load_identity a row) = (case user_id a of None \<Rightarrow> row_user_id row | Some n \<Rightarrow> Some n)"
  by (simp_all add: load_identity_def Let_def split: option.splits)

lemma load_identity_frame:
  "llm (load_identity a row) = llm a"
  "memory (load_identity a row) = memory a"
  "assistant_data (load_identity a row) = assistant_data a"
  "run_data (load_identity a row) = run_data a"
  "user_data (load_identity a row) = user_data a"
  "task_data (load_identity a row) = task_data a"
  "storage (load_identity a row) = storage a"
  "db_row (load_identity a row) = db_row a"
  "calls (load_identity a row) = calls a"
  "tasks (load_identity a row) = tasks a"
  "introduction (load_identity a row) = introduction a"
  "monitoring (load_identity a row) = monitoring a"
  "output_model (load_identity a row) = output_model a"
  "parse_output (load_identity a row) = parse_output a"
  "markdown (load_identity a row) = markdown a"
  "output_field (load_identity a row) = output_field a"
  by (simp_all add: load_identity_def Let_def)

lemma load_llm_metrics_frame:
  "name (load_llm_metrics env a row) = name a"
  "run_id (load_llm_metrics env a row) = run_id a"
  "run_name (load_llm_metrics env a row) = run_name a"
  "user_id (load_llm_metrics env a row) = user_id a"
  "memory (load_llm_metrics env a row) = memory a"
  "assistant_data (load_llm_metrics env a row) = assistant_data a"
  "run_data (load_llm_metrics env a row) = run_data a"
  "user_data (load_llm_metrics env a row) = user_data a"
  "task_data (load_llm_metrics env a row) = task_data a"
  "storage (load_llm_metrics env a row) = storage a"
  "db_row (load_llm_metrics env a row) = db_row a"
  "calls (load_llm_metrics env a row) = calls a"
  "tasks (load_llm_metrics env a row) = tasks a"
  "introduction (load_llm_metrics env a row) = introduction a"
  "monitoring (load_llm_metrics env a row) = monitoring a"
  "output_model (load_llm_metrics env a row) = output_model a"
  "parse_output (load_llm_metrics env a row) = parse_output a"
  "markdown (load_llm_metrics env a row) = markdown a"
  "output_field (load_llm_metrics env a row) = output_field a"
  "(llm (load_llm_metrics env a row) = None) = (llm a = None)"
  by (simp_all add: load_llm_metrics_def split: option.splits pyval.splits)

lemma load_memory_frame:
  "name (load_memory env a row) = name a"
  "run_id (load_memory env a row) = run_id a"
  "run_name (load_memory env a row) = run_name a"
  "user_id (load_memory env a row) = user_id a"
  "llm (load_memory env a row) = llm a"
  "assistant_data (load_memory env a row) = assistant_data a"
  "run_data (load_memory env a row) = run_data a"
  "user_data (load_memory env a row) = user_data a"
  "task_data (load_memory env a row) = task_data a"
  "storage (load_memory env a row) = storage a"
  "db_row (load_memory env a row) = db_row a"
  "calls (load_memory env a row) = calls a"
  "tasks (load_memory env a row) = tasks a"
  "introduction (load_memory env a row) = introduction a"
  "monitoring (load_memory env a row) = monitoring a"
  "output_model (load_memory env a row) = output_model a"
  "parse_output (load_memory env a row) = parse_output a"
  "markdown (load_memory env a row) = markdown a"
  "output_field (load_memory env a row) = output_field a"
  by (simp_all add: load_memory_def split: option.splits)

lemma load_data_frame:
  "name (fst (load_data a row)) = name a"
  "run_id (fst (load_data a row)) = run_id a"
  "run_name (fst (load_data a row)) = run_name a"
  "user_id (fst (load_data a row)) = user_id a"
  "llm (fst (load_data a row)) = llm a"
  "memory (fst (load_data a row)) = memory a"
  "storage (fst (load_data a row)) = storage a"
  "db_row (fst (load_data a row)) = db_row a"
  "calls (fst (load_data a row)) = calls a"
  "tasks (fst (load_data a row)) = tasks a"
  "introduction (fst (load_data a row)) = introduction a"
  "monitoring (fst (load_data a row)) = monitoring a"
  "output_model (fst (load_data a row)) = output_model a"
  "parse_output (fst (load_data a row)) = parse_output a"
  "markdown (fst (load_data a row)) = markdown a"
  "output_field (fst (load_data a row)) = output_field a"
  "assistant_data (fst (load_data a row)) = fst (reconcile (assistant_data a) (row_assistant_data row))"
  "run_data (fst (load_data a row)) = fst (reconcile (run_data a) (row_run_data row))"
  "user_data (fst (load_data a row)) = fst (reconcile (user_data a) (row_user_data row))"
  "task_data (fst (load_data a row)) = fst (reconcile (task_data a) (row_task_data row))"
  by (simp_all add: load_data_def)

lemma load_data_row:
  "row_name (snd (load_data a row)) = row_name row"
  "row_run_id (snd (load_data a row)) = row_run_id row"
  "row_run_name (snd (load_data a row)) = row_run_name row"
  "row_user_id (snd (load_data a row)) = row_user_id row"
  by (simp_all add: load_data_def)

lemmas load_frames = load_identity_frame load_llm_metrics_frame load_memory_frame load_data_frame

section \<open>Identity fields are only filled in\<close>

text \<open>
  Claim C10. \<^verbatim>\<open>from_database_row\<close> never overwrites an identity field that is set on the
  live assistant: for every row, each of \<^verbatim>\<open>name\<close>, \<^verbatim>\<open>run_id\<close>, \<^verbatim>\<open>run_name\<close> and
  \<^verbatim>\<open>user_id\<close> takes the row's value when its live value is \<^verbatim>\<open>None\<close> and keeps its
  live value otherwise.
\<close>

theorem from_database_row_identity:
  "name (fst (from_database_row env a row))
     = (case name a of None \<Rightarrow> row_name row | Some n \<Rightarrow> Some n) \<and>
   run_id (fst (from_database_row env a row))
     = (case run_id a of None \<Rightarrow> row_run_id row | Some n \<Rightarrow> Some n) \<and>
   run_name (fst (from_database_row env a row))
     = (case run_name a of None \<Rightarrow> row_run_name row | Some n \<Rightarrow> Some n) \<and>
   user_id (fst (from_database_row env a row))
     = (case user_id a of None \<Rightarrow> row_user_id row | Some n \<Rightarrow> Some n)"
  by (simp add: from_database_row_def load_frames load_identity_fields)

section \<open>Merging metadata\<close>

lemma merged_lookup:
  "merge_dictionaries p l = (\<lambda>k. case l k of Some v \<Rightarrow> Some v | None \<Rightarrow> p k)"
  by (simp add: merge_dictionaries_def map_add_def)

lemma from_database_row_data:
  "assistant_data (fst (from_database_row env a row)) = fst (reconcile (assistant_data a) (row_assistant_data row))"
  "run_data (fst (from_database_row env a row)) = fst (reconcile (run_data a) (row_run_data row))"
  "user_data (fst (from_database_row env a row)) = fst (reconcile (user_data a) (row_user_data row))"
  "task_data (fst (from_database_row env a row)) = fst (reconcile (task_data a) (row_task_data row))"
  by (simp_all add: from_database_row_def load_frames)

text \<open>
  Claim C6. When \<^verbatim>\<open>from_database_row\<close> reconciles a live metadata dictionary
  (\<^verbatim>\<open>assistant_data\<close>, \<^verbatim>\<open>run_data\<close>, \<^verbatim>\<open>user_data\<close> or \<^verbatim>\<open>task_data\<close>) with a
  persisted one, the result has the live value at every key the live dictionary has and the
  persisted value at every other key; an absent live dictionary gives the persisted one,
  and an absent persisted dictionary leaves the live one. Live \<^verbatim>\<open>run_data\<close>
  \<^verbatim>\<open>{"x": 1}\<close> with persisted \<^verbatim>\<open>{"x": 2, "y": 3}\<close> gives \<^verbatim>\<open>{"x": 1, "y": 3}\<close>.
\<close>

theorem from_database_row_merge:
  "assistant_data (fst (from_database_row env a row))
     = (case row_assistant_data row of
          None \<Rightarrow> assistant_data a
        | Some p \<Rightarrow>
            (case assistant_data a of
               None \<Rightarrow> Some p
             | Some l \<Rightarrow> Some (\<lambda>k. case l k of Some v \<Rightarrow> Some v | None \<Rightarrow> p k))) \<and>
   run_data (fst (from_database_row env a row))
     = (case row_run_data row of
          None \<Rightarrow> run_data a
        | Some p \<Rightarrow>
            (case run_data a of
               None \<Rightarrow> Some p
             | Some l \<Rightarrow> Some (\<lambda>k. case l k of Some v \<Rightarrow> Some v | None \<Rightarrow> p k))) \<and>
   user_data (fst (from_database_row env a row))
     = (case row_user_data row of
          None \<Rightarrow> user_data a
        | Some p \<Rightarrow>
            (case user_data a of
               None \<Rightarrow> Some p
             | Some l \<Rightarrow> Some (\<lambda>k. case l k of Some v \<Rightarrow> Some v | None \<Rightarrow> p k))) \<and>
   task_data (fst (from_database_row env a row))
     = (case row_task_data row of
          None \<Rightarrow> task_data a
        | Some p \<Rightarrow>
            (case task_data a of
               None \<Rightarrow> Some p
             | Some l \<Rightarrow> Some (\<lambda>k. case l k of Some v \<Rightarrow> Some v | None \<Rightarrow> p k))) \<and>
   run_data (fst (from_database_row env
                    (a\<lparr>run_data := Some [''x'' \<mapsto> PInt 1]\<rparr>)
                    (row\<lparr>row_run_data := Some [''x'' \<mapsto> PInt 2, ''y'' \<mapsto> PInt 3]\<rparr>)))
     = Some [''x'' \<mapsto> PInt 1, ''y'' \<mapsto> PInt 3]"
proof -
  have ex: "merge_dictionaries [''x'' \<mapsto> PInt 2, ''y'' \<mapsto> PInt 3] [''x'' \<mapsto> PInt 1]
              = [''x'' \<mapsto> PInt 1, ''y'' \<mapsto> PInt 3]"
    by (rule ext) (simp add: merge_dictionaries_def map_add_def)
  show ?thesis
    by (simp add: from_database_row_data reconcile_fst ex merged_lookup [symmetric]
             split: option.splits)
qed

section \<open>Reading another user's run\<close>

lemma read_from_storage_mismatch:
  assumes "storage a = Some st" "run_id a = Some rid" "storage_read env st rid = Some row"
    "user_id a = Some u" "row_user_id row \<noteq> Some u"
  shows "read_from_storage env a = (None, a\<lparr>db_row := Some row, calls := StorageRead rid # calls a\<rparr>)"
  using assms by (simp add: read_from_storage_def)


text \<open>
  Claim C1 says that \<^verbatim>\<open>read_from_storage\<close>, when the caller's user id differs from the
  user id of the record that storage returns, returns no record and leaves the assistant
  unchanged, the cached \<^verbatim>\<open>db_row\<close> included. The call returns \<^verbatim>\<open>None\<close> and leaves
  memory and metadata alone, but the record of the other user stays in \<^verbatim>\<open>db_row\<close>:
  here for the assistant of \<^verbatim>\<open>alice\<close> and the run of \<^verbatim>\<open>bob\<close>.
\<close>

theorem read_from_storage_mismatch_caches_row:
  "db_row alice = None \<and>
   fst (read_from_storage sample_env alice) = None \<and>
   snd (read_from_storage sample_env alice)
     = alice\<lparr>db_row := Some foreign_row, calls := [StorageRead ''r1'']\<rparr>"
  by (simp add: read_from_storage_def alice_def defaults_def sample_env_def foreign_row_def)

end
